theory Spec2Isabelle
  imports Main
begin

section \<open>Go library operations used by generate.go\<close>

text \<open>
  \<^verbatim>\<open>strings.Split(s, sep)\<close> for a separator of one element, the only kind
  generate.go passes (\<^verbatim>\<open>":"\<close> and \<^verbatim>\<open>"\n"\<close>): cut at the first occurrence of the
  separator, keep what stands before it, go on with what stands after it; the
  last piece is what is left when the separator no longer occurs. The result
  is never empty: the empty string splits into one empty piece.
\<close>

function Split :: "'a list \<Rightarrow> 'a \<Rightarrow> 'a list list" where
  "Split s sep =
     (case dropWhile (\<lambda>c. c \<noteq> sep) s of
        [] \<Rightarrow> [s]
      | _ # rest \<Rightarrow> takeWhile (\<lambda>c. c \<noteq> sep) s # Split rest sep)"
  by pat_completeness auto
termination
proof (relation "measure (\<lambda>(s, sep). length s)")
  show "wf (measure (\<lambda>(s, sep). length s))" by simp
next
  fix s :: "'a list" and sep x21 x22
  assume "dropWhile (\<lambda>c. c \<noteq> sep) s = x21 # x22"
  then have "length (dropWhile (\<lambda>c. c \<noteq> sep) s) = Suc (length x22)" by simp
  moreover have "length (dropWhile (\<lambda>c. c \<noteq> sep) s) \<le> length s"
    by (rule length_dropWhile_le)
  ultimately show "((x22, sep), (s, sep)) \<in> measure (\<lambda>(s, sep). length s)" by simp
qed

declare Split.simps [simp del]

text \<open>\<^verbatim>\<open>strings.HasSuffix(s, suffix)\<close>:
  \<^verbatim>\<open>len(s) >= len(suffix) && s[len(s)-len(suffix):] == suffix\<close>.\<close>

definition HasSuffix :: "string \<Rightarrow> string \<Rightarrow> bool" where
  "HasSuffix s suff =
     (length suff \<le> length s \<and> drop (length s - length suff) s = suff)"

text \<open>
  Reading a Go \<^verbatim>\<open>map[string]string\<close>: \<^verbatim>\<open>m[k]\<close> is the stored value, or the zero
  value \<^verbatim>\<open>""\<close> when the key is absent; the two-valued form \<^verbatim>\<open>_, ok := m[k]\<close>
  tells whether the key is present.
\<close>

definition go_index :: "(string \<rightharpoonup> string) \<Rightarrow> string \<Rightarrow> string" where
  "go_index m k = (case m k of None \<Rightarrow> [] | Some v \<Rightarrow> v)"

definition go_comma_ok :: "(string \<rightharpoonup> string) \<Rightarrow> string \<Rightarrow> bool" where
  "go_comma_ok m k = (case m k of None \<Rightarrow> False | Some v \<Rightarrow> True)"

text \<open>
  A slice expression on a string panics when its bounds are out of range:
  \<^verbatim>\<open>s[lo:hi]\<close> needs \<^verbatim>\<open>lo <= hi <= len(s)\<close>, \<^verbatim>\<open>s[lo:]\<close> needs \<^verbatim>\<open>lo <= len(s)\<close>.
\<close>

datatype panic = SliceBoundsOutOfRange

definition slice :: "string \<Rightarrow> nat \<Rightarrow> nat \<Rightarrow> panic + string" where
  "slice s lo hi =
     (if lo \<le> hi \<and> hi \<le> length s then Inr (take (hi - lo) (drop lo s))
      else Inl SliceBoundsOutOfRange)"

definition slice_from :: "string \<Rightarrow> nat \<Rightarrow> panic + string" where
  "slice_from s lo = (if lo \<le> length s then Inr (drop lo s) else Inl SliceBoundsOutOfRange)"

text \<open>Sequencing of steps that may panic: the first panic ends the call.\<close>

definition and_then :: "panic + 'a \<Rightarrow> ('a \<Rightarrow> panic + 'b) \<Rightarrow> panic + 'b" where
  "and_then r f = (case r of Inl e \<Rightarrow> Inl e | Inr x \<Rightarrow> f x)"

section \<open>Identifier and type utilities\<close>

subsection \<open>reservedWords and replaceReservedWords (generate.go, lines 16 to 50)\<close>

text \<open>The map literal, entry by entry; the map is what the literal's entries give.\<close>

definition reservedWords_literal :: "(string \<times> string) list" where
  "reservedWords_literal =
     [(''break'', ''break_''),
      (''default'', ''default_''),
      (''func'', ''func_''),
      (''interface'', ''interface_''),
      (''select'', ''select_''),
      (''case'', ''case_''),
      (''defer'', ''defer_''),
      (''go'', ''go_''),
      (''map'', ''map_''),
      (''struct'', ''struct_''),
      (''chan'', ''chan_''),
      (''else'', ''else_''),
      (''goto'', ''goto_''),
      (''package'', ''package_''),
      (''switch'', ''switch_''),
      (''const'', ''const_''),
      (''fallthrough'', ''fallthrough_''),
      (''if'', ''if_''),
      (''range'', ''range_''),
      (''type'', ''type_''),
      (''continue'', ''continue_''),
      (''for'', ''for_''),
      (''import'', ''import_''),
      (''return'', ''return_''),
      (''var'', ''var_'')]"

definition reservedWords :: "string \<rightharpoonup> string" where
  "reservedWords = map_of reservedWords_literal"

definition replaceReservedWords :: "string \<Rightarrow> string" where
  "replaceReservedWords identifier =
     (let value = go_index reservedWords identifier
      in if value \<noteq> [] then value else identifier)"

subsection \<open>xsd2GoTypes and toGoType (generate.go, lines 52 to 108)\<close>

definition xsd2GoTypes_literal :: "(string \<times> string) list" where
  "xsd2GoTypes_literal =
     [(''string'', ''string''),
      (''token'', ''string''),
      (''float'', ''float32''),
      (''double'', ''float64''),
      (''decimal'', ''float64''),
      (''integer'', ''int32''),
      (''int'', ''int32''),
      (''short'', ''int16''),
      (''byte'', ''int8''),
      (''long'', ''int64''),
      (''boolean'', ''bool''),
      (''dateTime'', ''time.Time''),
      (''date'', ''time.Time''),
      (''time'', ''time.Time''),
      (''base64Binary'', ''[]byte''),
      (''hexBinary'', ''[]byte''),
      (''unsignedInt'', ''uint32''),
      (''unsignedShort'', ''uint16''),
      (''unsignedByte'', ''byte''),
      (''unsignedLong'', ''uint64''),
      (''anyType'', ''interface{}'')]"

definition xsd2GoTypes :: "string \<rightharpoonup> string" where
  "xsd2GoTypes = map_of xsd2GoTypes_literal"

text \<open>
  The namespace qualifier is dropped only when the token has exactly one colon
  (\<^verbatim>\<open>len(r) == 2\<close>); otherwise the first piece is kept. \<^verbatim>\<open>r[0]\<close> is in range because
  \<^const>\<open>Split\<close> never returns the empty list, and \<^verbatim>\<open>type_[:len(type_)-2]\<close> is in
  range because it is guarded by \<^const>\<open>HasSuffix\<close>.
\<close>

definition toGoType :: "string \<Rightarrow> string" where
  "toGoType xsdType =
     (if xsdType = [] then []
      else
        let r = Split xsdType (CHR '':'');
            type' = (if length r = 2 then r ! 1 else r ! 0);
            value = go_index xsd2GoTypes type'
        in if value \<noteq> [] then value
           else if HasSuffix type' ''[]'' then
             (let type' = take (length type' - 2) type'
              in if go_comma_ok xsd2GoTypes type' then ''[]'' @ type' else ''[]*'' @ type')
           else ''*'' @ type')"

subsection \<open>comment (generate.go, lines 135 to 161)\<close>

text \<open>
  \<^verbatim>\<open>strings.TrimLeftFunc\<close> and \<^verbatim>\<open>unicode.IsSpace\<close> work on the code points that a
  string decodes to, so the text is modelled here as that sequence of code
  points (a byte that is not valid UTF-8 decodes to U+FFFD, which is not a
  space). The line break is one code point and one byte, so splitting at it is
  the same on both views.

  \<^verbatim>\<open>unicode.IsSpace\<close>: in Latin-1 the characters \<^verbatim>\<open>\t \n \v \f \r\<close>, the space,
  U+0085 and U+00A0; above Latin-1 the code points of Unicode's White_Space
  property.
\<close>

type_synonym rune = nat

definition IsSpace :: "rune \<Rightarrow> bool" where
  "IsSpace r =
     (if r \<le> 255 then r = 9 \<or> r = 10 \<or> r = 11 \<or> r = 12 \<or> r = 13 \<or> r = 32 \<or> r = 133 \<or> r = 160
      else r = 5760 \<or> (8192 \<le> r \<and> r \<le> 8202) \<or> r = 8232 \<or> r = 8233 \<or> r = 8239
        \<or> r = 8287 \<or> r = 12288)"

definition TrimLeftFunc :: "rune list \<Rightarrow> (rune \<Rightarrow> bool) \<Rightarrow> rune list" where
  "TrimLeftFunc s f = dropWhile f s"

definition newline :: rune where
  "newline = 10"

text \<open>The string \<^verbatim>\<open>"\n// "\<close> that opens every emitted line.\<close>

definition comment_marker :: "rune list" where
  "comment_marker = [10, 47, 47, 32]"

text \<open>The loop of lines 149 to 155, threading \<^verbatim>\<open>output\<close> and \<^verbatim>\<open>hasComment\<close>.\<close>

fun comment_loop :: "rune list list \<Rightarrow> rune list \<Rightarrow> bool \<Rightarrow> rune list \<times> bool" where
  "comment_loop [] output hasComment = (output, hasComment)"
| "comment_loop (line # lines) output hasComment =
     (let line' = TrimLeftFunc line IsSpace
      in comment_loop lines (output @ comment_marker @ line')
           (if line' \<noteq> [] then True else hasComment))"

definition comment :: "rune list \<Rightarrow> rune list" where
  "comment text' =
     (let lines = Split text' newline
      in if length lines = 1 \<and> lines ! 0 = [] then []
         else case comment_loop lines [] False of
                (output, hasComment) \<Rightarrow> if hasComment then output else [])"

section \<open>The namespace index\<close>

text \<open>
  Of the schema's \<^verbatim>\<open>Object\<close> type, declared outside generate.go, the code of
  generate.go reads two fields.
\<close>

record Object =
  Name :: string
  Namespace :: string

text \<open>
  generate, lines 219 to 223: \<^verbatim>\<open>objnsmap\<close> is made empty and then assigned once per
  object, in schema order. The global is modelled as the value this pass
  returns, handed to \<^verbatim>\<open>lookUpNamespace\<close> as an argument.
\<close>

definition populate_objnsmap :: "Object list \<Rightarrow> (string \<rightharpoonup> string)" where
  "populate_objnsmap objects = foldl (\<lambda>m obj. m(Name obj \<mapsto> Namespace obj)) Map.empty objects"

subsection \<open>lookUpNamespace (generate.go, lines 173 to 196)\<close>

text \<open>Lines 190 to 195, after the decoration has been split off.\<close>

definition qualify :: "(string \<rightharpoonup> string) \<Rightarrow> string \<Rightarrow> string \<Rightarrow> string \<Rightarrow> string" where
  "qualify objnsmap prefix' type' currentNs =
     (let targetNs = go_index objnsmap type'
      in if targetNs = [] \<or> targetNs = currentNs then prefix' @ type'
         else prefix' @ targetNs @ ''.'' @ type')"

definition lookUpNamespace :: "(string \<rightharpoonup> string) \<Rightarrow> string \<Rightarrow> string \<Rightarrow> panic + string" where
  "lookUpNamespace objnsmap type' currentNs =
     (if type' = [] then Inr type'
      else
        and_then (slice type' 0 1) (\<lambda>s1.
          if s1 = ''*'' then
            and_then (slice_from type' 1) (\<lambda>rest. Inr (qualify objnsmap ''*'' rest currentNs))
          else
            and_then (slice type' 0 3) (\<lambda>s3.
              if s3 = ''[]*'' then
                and_then (slice_from type' 3) (\<lambda>rest. Inr (qualify objnsmap ''[]*'' rest currentNs))
              else
                and_then (slice type' 0 2) (\<lambda>s2.
                  if s2 = ''[]'' then
                    and_then (slice_from type' 2) (\<lambda>rest. Inr (qualify objnsmap ''[]'' rest currentNs))
                  else Inr (qualify objnsmap [] type' currentNs)))))"

section \<open>Emission of one namespace: genCode (generate.go, lines 257 to 317)\<close>

text \<open>
  What genCode does to the outside is recorded as the list of its effects, in
  the order they happen. \<^verbatim>\<open>log.Fatalln\<close> and \<^verbatim>\<open>log.Fatalf\<close> print their message and
  end the process, so \<^term>\<open>Fatal\<close> is always the last effect; the deferred
  \<^verbatim>\<open>fd.Close()\<close> runs when genCode returns or unwinds from a panic, and not
  when the process is ended by \<^verbatim>\<open>log.Fatal\<close>.
\<close>

datatype event =
    Mkdir string
  | Create string
  | Write string string
  | Close string
  | Fatal string
  | Panic string

text \<open>
  \<^verbatim>\<open>template.Must(template.New(..).Funcs(funcMap).Parse(tmpl))\<close> panics when the
  template does not parse; \<^verbatim>\<open>tmpl.Execute(data, obj)\<close> returns an error or appends
  the rendered text to the buffer.
\<close>

datatype tmpl_outcome = ParsePanic string | ExecError string | Rendered string

text \<open>
  What genCode takes from outside generate.go: the constant \<^verbatim>\<open>headerTmpl\<close> and the
  function \<^verbatim>\<open>exists\<close> (declared in other files of the repository), the file
  system's answer to \<^verbatim>\<open>os.Create\<close> (an error message, or none), the \<^verbatim>\<open>text/template\<close>
  engine and \<^verbatim>\<open>go/format\<close>'s \<^verbatim>\<open>format.Source\<close> (an error message, or the
  reformatted text).
\<close>

record world =
  headerTmpl :: string
  exists_dir :: "string \<Rightarrow> bool \<times> string option"
  os_Create :: "string \<Rightarrow> string option"
  template_Execute :: "string \<Rightarrow> Object \<Rightarrow> tmpl_outcome"
  format_Source :: "string \<Rightarrow> string + string"

definition nl :: string where
  "nl = [CHR 0x0A]"

definition tabs :: "nat \<Rightarrow> string" where
  "tabs n = replicate n (CHR 0x09)"

definition quoted :: "string \<Rightarrow> string" where
  "quoted s = [CHR 0x22] @ s @ [CHR 0x22]"

text \<open>The raw string literals of lines 275 to 295; no block is written for any other namespace.\<close>

definition import_block :: "string \<Rightarrow> string" where
  "import_block namespace =
     (if namespace = ''do'' then
        nl @ tabs 3 @ ''import ('' @ nl
        @ tabs 4 @ ''//'' @ quoted ''github.com/c4milo/govsphere/vim/mo'' @ nl
        @ tabs 4 @ quoted ''time'' @ nl
        @ tabs 3 @ '')'' @ nl @ tabs 2
      else if namespace = ''mo'' then
        nl @ tabs 3 @ ''import ('' @ nl
        @ tabs 4 @ quoted ''github.com/c4milo/govsphere/vim/do'' @ nl
        @ tabs 4 @ quoted ''time'' @ nl
        @ tabs 3 @ '')'' @ nl @ tabs 2
      else if namespace = ''fault'' then
        nl @ tabs 3 @ ''import ('' @ nl
        @ tabs 4 @ quoted ''github.com/c4milo/govsphere/vim/do'' @ nl
        @ tabs 3 @ '')'' @ nl @ tabs 2
      else [])"

text \<open>Lines 272 to 295: the buffer before any object is rendered.\<close>

definition boilerplate :: "world \<Rightarrow> string \<Rightarrow> string" where
  "boilerplate w namespace =
     headerTmpl w @ (''package '' @ namespace @ nl) @ import_block namespace"

text \<open>
  Lines 297 to 308: objects of other namespaces are skipped; the first template
  failure ends the run.
\<close>

fun render_objects :: "world \<Rightarrow> string \<Rightarrow> string \<Rightarrow> Object list \<Rightarrow> string \<Rightarrow> event + string" where
  "render_objects w tmpl namespace [] data = Inr data"
| "render_objects w tmpl namespace (obj # objects) data =
     (if Namespace obj \<noteq> namespace then render_objects w tmpl namespace objects data
      else case template_Execute w tmpl obj of
             ParsePanic e \<Rightarrow> Inl (Panic e)
           | ExecError e \<Rightarrow> Inl (Fatal (e @ nl))
           | Rendered out \<Rightarrow> render_objects w tmpl namespace objects (data @ out))"

definition output_file :: "string \<Rightarrow> string \<Rightarrow> string" where
  "output_file mainPkg namespace = (mainPkg @ ''/'' @ namespace) @ ''/'' @ namespace @ ''.go''"

text \<open>The message of line 314.\<close>

definition format_diagnostic :: "string \<Rightarrow> string \<Rightarrow> string" where
  "format_diagnostic file err =
     ''There are errors in the generated source for '' @ file @ '': '' @ err @ nl"

definition genCode :: "world \<Rightarrow> Object list \<Rightarrow> string \<Rightarrow> string \<Rightarrow> string \<Rightarrow> event list" where
  "genCode w objects mainPkg tmpl namespace =
     (let pkg = mainPkg @ ''/'' @ namespace;
          made = (case exists_dir w pkg of
                    (ok, err) \<Rightarrow> if \<not> ok \<and> err = None then [Mkdir pkg] else []);
          file = output_file mainPkg namespace
      in case os_Create w file of
           Some err \<Rightarrow> made @ [Fatal (err @ nl)]
         | None \<Rightarrow>
             (case render_objects w tmpl namespace objects (boilerplate w namespace) of
                Inl (Panic e) \<Rightarrow> made @ [Create file, Close file, Panic e]
              | Inl stop \<Rightarrow> made @ [Create file, stop]
              | Inr source \<Rightarrow>
                  (case format_Source w source of
                     Inl err \<Rightarrow>
                       made @ [Create file, Write file source, Fatal (format_diagnostic file err)]
                   | Inr fsource \<Rightarrow> made @ [Create file, Write file fsource, Close file])))"

section \<open>Properties\<close>

subsection \<open>Splitting\<close>

lemma Split_nonempty: "Split s sep \<noteq> []"
  by (subst Split.simps) (simp split: list.splits)

lemma Split_no_sep:
  assumes "sep \<notin> set s"
  shows "Split s sep = [s]"
proof -
  have d: "dropWhile (\<lambda>c. c \<noteq> sep) s = []"
    using assms by auto
  show ?thesis
    by (subst Split.simps) (simp only: d list.case)
qed

lemma Split_append:
  assumes "sep \<notin> set p"
  shows "Split (p @ sep # k) sep = p # Split k sep"
proof -
  have all: "\<And>x. x \<in> set p \<Longrightarrow> x \<noteq> sep"
    using assms by auto
  have d: "dropWhile (\<lambda>c. c \<noteq> sep) (p @ sep # k) = sep # k"
    using all by (simp add: dropWhile_append2)
  have t: "takeWhile (\<lambda>c. c \<noteq> sep) (p @ sep # k) = p"
    using all by (simp add: takeWhile_append2)
  show ?thesis
    by (subst Split.simps) (simp only: d t list.case)
qed

subsection \<open>The reserved-identifier escaper\<close>

text \<open>Every entry maps a word to the word followed by an underscore, and no word ends in one.\<close>

lemma reservedWords_shape:
  "list_all (\<lambda>(k, v). v = k @ ''_'' \<and> last k \<noteq> CHR ''_'') reservedWords_literal"
  unfolding reservedWords_literal_def by simp

lemma reservedWords_Some:
  assumes "reservedWords k = Some v"
  shows "v = k @ ''_'' \<and> last k \<noteq> CHR ''_''"
proof -
  have "(k, v) \<in> set reservedWords_literal"
    using assms unfolding reservedWords_def by (rule map_of_SomeD)
  with reservedWords_shape show ?thesis
    by (auto simp: list_all_iff)
qed

lemma reservedWords_escaped_absent: "reservedWords (k @ ''_'') = None"
proof (cases "reservedWords (k @ ''_'')")
  case None
  then show ?thesis .
next
  case (Some v)
  then have "last (k @ ''_'') \<noteq> CHR ''_''"
    using reservedWords_Some by blast
  then show ?thesis by simp
qed

lemma replaceReservedWords_hit:
  assumes "identifier \<in> dom reservedWords"
  shows "replaceReservedWords identifier = identifier @ ''_''"
proof -
  from assms obtain v where v: "reservedWords identifier = Some v"
    by auto
  then have "v = identifier @ ''_''"
    using reservedWords_Some by blast
  with v show ?thesis
    by (simp add: replaceReservedWords_def go_index_def)
qed

lemma replaceReservedWords_miss:
  assumes "identifier \<notin> dom reservedWords"
  shows "replaceReservedWords identifier = identifier"
proof -
  from assms have "reservedWords identifier = None"
    by auto
  then show ?thesis
    by (simp add: replaceReservedWords_def go_index_def)
qed

text \<open>
  Claim C4. For every identifier in the reserved-word table, replaceReservedWords
  returns the identifier with the suffix \<^verbatim>\<open>_\<close> appended; for every identifier that
  is not in the table it returns the identifier unchanged; and applying it twice
  gives the same result as applying it once.
\<close>

theorem replaceReservedWords_escapes:
  "(identifier \<in> dom reservedWords \<longrightarrow> replaceReservedWords identifier = identifier @ ''_'')
   \<and> (identifier \<notin> dom reservedWords \<longrightarrow> replaceReservedWords identifier = identifier)
   \<and> replaceReservedWords (replaceReservedWords identifier) = replaceReservedWords identifier"
proof (intro conjI impI)
  assume "identifier \<in> dom reservedWords"
  then show "replaceReservedWords identifier = identifier @ ''_''"
    by (rule replaceReservedWords_hit)
next
  assume "identifier \<notin> dom reservedWords"
  then show "replaceReservedWords identifier = identifier"
    by (rule replaceReservedWords_miss)
next
  show "replaceReservedWords (replaceReservedWords identifier) = replaceReservedWords identifier"
  proof (cases "identifier \<in> dom reservedWords")
    case True
    have "identifier @ ''_'' \<notin> dom reservedWords"
      using reservedWords_escaped_absent [of "identifier"] by auto
    then have "replaceReservedWords (identifier @ ''_'') = identifier @ ''_''"
      by (rule replaceReservedWords_miss)
    with True show ?thesis
      by (simp add: replaceReservedWords_hit)
  next
    case False
    then show ?thesis
      by (simp add: replaceReservedWords_miss)
  qed
qed

theorem replaceReservedWords_escapes_witness:
  "''map'' \<in> dom reservedWords \<and> replaceReservedWords ''map'' = ''map_''
   \<and> ''host'' \<notin> dom reservedWords \<and> replaceReservedWords ''host'' = ''host''
   \<and> replaceReservedWords (replaceReservedWords ''map'') = ''map_''"
proof -
  have a: "''map'' \<in> dom reservedWords"
    by (simp add: reservedWords_def reservedWords_literal_def dom_def)
  have b: "''host'' \<notin> dom reservedWords"
    by (simp add: reservedWords_def reservedWords_literal_def dom_def)
  from a replaceReservedWords_escapes [of "''map''"]
  have m: "replaceReservedWords ''map'' = ''map_''"
    by simp
  from replaceReservedWords_escapes [of "''map''"]
  have i: "replaceReservedWords (replaceReservedWords ''map'') = replaceReservedWords ''map''"
    by blast
  from b replaceReservedWords_escapes [of "''host''"]
  have h: "replaceReservedWords ''host'' = ''host''"
    by blast
  from a m b h trans [OF i m] show ?thesis
    by (intro conjI)
qed


subsection \<open>The primitive type mapper\<close>

text \<open>
  No key of the table is empty, holds a colon or ends in a closing bracket, and
  no value is empty, so a hit is never mistaken for a miss.
\<close>

lemma xsd2GoTypes_shape:
  "list_all (\<lambda>(k, v). k \<noteq> [] \<and> CHR '':'' \<notin> set k \<and> last k \<noteq> CHR '']'' \<and> v \<noteq> [])
     xsd2GoTypes_literal"
  unfolding xsd2GoTypes_literal_def by simp

lemma xsd2GoTypes_distinct: "distinct (map fst xsd2GoTypes_literal)"
  unfolding xsd2GoTypes_literal_def by simp

lemma xsd2GoTypes_Some:
  assumes "xsd2GoTypes k = Some v"
  shows "k \<noteq> [] \<and> CHR '':'' \<notin> set k \<and> last k \<noteq> CHR '']'' \<and> v \<noteq> []"
proof -
  have "(k, v) \<in> set xsd2GoTypes_literal"
    using assms unfolding xsd2GoTypes_def by (rule map_of_SomeD)
  with xsd2GoTypes_shape show ?thesis
    by (auto simp: list_all_iff)
qed

text \<open>What toGoType returns once the local name has been found in the table.\<close>

lemma toGoType_found:
  assumes "xsdType \<noteq> []"
    and "Split xsdType (CHR '':'') = r"
    and "(if length r = 2 then r ! 1 else r ! 0) = local"
    and "xsd2GoTypes local = Some native"
  shows "toGoType xsdType = native"
proof -
  have "native \<noteq> []"
    using assms(4) xsd2GoTypes_Some by blast
  then show ?thesis
    using assms by (simp add: toGoType_def Let_def go_index_def)
qed

text \<open>
  Claim C5. For every type-token whose local name is a key of the primitive
  table, toGoType returns the native type the table declares for it, and it
  returns the same whether the token is the bare local name or the local name
  behind a namespace qualifier and a colon (\<^verbatim>\<open>xsd:int\<close> maps as \<^verbatim>\<open>int\<close> does).
  A qualifier is a name without a colon.
\<close>

theorem toGoType_primitive:
  assumes "xsd2GoTypes local = Some native"
    and "CHR '':'' \<notin> set qualifier"
  shows "toGoType local = native \<and> toGoType (qualifier @ '':'' @ local) = native"
proof
  have loc: "local \<noteq> []" "CHR '':'' \<notin> set local"
    using assms(1) xsd2GoTypes_Some by blast+
  have "Split local (CHR '':'') = [local]"
    using loc(2) by (rule Split_no_sep)
  then show "toGoType local = native"
    using loc(1) assms(1) by (intro toGoType_found [where r = "[local]"]) simp_all
  have "Split (qualifier @ CHR '':'' # local) (CHR '':'') = qualifier # Split local (CHR '':'')"
    using assms(2) by (rule Split_append)
  then have "Split (qualifier @ '':'' @ local) (CHR '':'') = [qualifier, local]"
    using \<open>Split local (CHR '':'') = [local]\<close> by simp
  then show "toGoType (qualifier @ '':'' @ local) = native"
    using assms(1) by (intro toGoType_found [where r = "[qualifier, local]"]) simp_all
qed

theorem toGoType_primitive_witness:
  "xsd2GoTypes ''int'' = Some ''int32'' \<and> CHR '':'' \<notin> set ''xsd''
   \<and> toGoType ''int'' = ''int32'' \<and> toGoType ''xsd:int'' = ''int32''"
proof -
  have a: "xsd2GoTypes ''int'' = Some ''int32''"
    by (simp add: xsd2GoTypes_def xsd2GoTypes_literal_def)
  have b: "CHR '':'' \<notin> set ''xsd''"
    by simp
  from toGoType_primitive [OF a b] a b show ?thesis
    by simp
qed

text \<open>The array branch, as the code has it.\<close>

lemma toGoType_array:
  assumes "CHR '':'' \<notin> set base"
  shows "toGoType (base @ ''[]'') =
    (if go_comma_ok xsd2GoTypes base then ''[]'' @ base else ''[]*'' @ base)"
proof -
  have nocolon: "CHR '':'' \<notin> set (base @ ''[]'')"
    using assms by simp
  have split: "Split (base @ ''[]'') (CHR '':'') = [base @ ''[]'']"
    using nocolon by (rule Split_no_sep)
  have absent: "xsd2GoTypes (base @ ''[]'') = None"
  proof (cases "xsd2GoTypes (base @ ''[]'')")
    case None
    then show ?thesis .
  next
    case (Some v)
    then have "last (base @ ''[]'') \<noteq> CHR '']''"
      using xsd2GoTypes_Some by blast
    then show ?thesis by simp
  qed
  have suffix: "HasSuffix (base @ ''[]'') ''[]''"
    by (simp add: HasSuffix_def)
  show ?thesis
    using split absent suffix by (simp add: toGoType_def Let_def go_index_def)
qed

text \<open>
  Claim C1. The claim asks that a token with an array suffix maps to a sequence
  whose element type is what the scalar rule gives for the base name. For a base
  name in the primitive table the code prepends \<^verbatim>\<open>[]\<close> to the base name itself and
  not to its native type: \<^verbatim>\<open>short[]\<close> becomes \<^verbatim>\<open>[]short\<close>, while \<^verbatim>\<open>short\<close> alone
  becomes \<^verbatim>\<open>int16\<close>.
\<close>

theorem toGoType_array_of_primitive_unmapped:
  "toGoType ''short[]'' = ''[]short'' \<and> toGoType ''short'' = ''int16''
   \<and> toGoType ''short[]'' \<noteq> ''[]'' @ toGoType ''short''"
proof -
  have entry: "xsd2GoTypes ''short'' = Some ''int16''"
    by (simp add: xsd2GoTypes_def xsd2GoTypes_literal_def)
  have arr: "toGoType ''short[]'' = ''[]short''"
    using toGoType_array [of "''short''"] entry by (simp add: go_comma_ok_def)
  have "Split ''short'' (CHR '':'') = [''short'']"
    by (rule Split_no_sep) simp
  then have scalar: "toGoType ''short'' = ''int16''"
    using entry by (intro toGoType_found [where r = "[''short'']"]) simp_all
  from arr scalar show ?thesis
    by simp
qed

subsection \<open>The namespace index\<close>

lemma populate_objnsmap_snoc:
  "populate_objnsmap (objects @ [obj]) = (populate_objnsmap objects)(Name obj \<mapsto> Namespace obj)"
  by (simp add: populate_objnsmap_def)

text \<open>
  Claim C10. The build pass keeps, for every name, the namespace of the last
  object of the schema that bears the name, whatever number of objects share
  it; the pass always returns an index and reports nothing. A name that no
  object bears is absent from the index.
\<close>

theorem populate_objnsmap_last_wins:
  "populate_objnsmap objects name =
     (let same = filter (\<lambda>obj. Name obj = name) objects
      in if same = [] then None else Some (Namespace (last same)))"
proof (induction objects rule: rev_induct)
  case Nil
  show ?case
    by (simp add: populate_objnsmap_def)
next
  case (snoc obj objects)
  show ?case
  proof (cases "Name obj = name")
    case True
    then show ?thesis
      by (simp add: populate_objnsmap_snoc)
  next
    case False
    then show ?thesis
      using snoc.IH by (simp add: populate_objnsmap_snoc)
  qed
qed

theorem populate_objnsmap_last_wins_example:
  "populate_objnsmap
     [\<lparr>Name = ''Task'', Namespace = ''mo''\<rparr>, \<lparr>Name = ''Host'', Namespace = ''mo''\<rparr>,
      \<lparr>Name = ''Task'', Namespace = ''do''\<rparr>] ''Task'' = Some ''do''"
  using populate_objnsmap_last_wins
    [of "[\<lparr>Name = ''Task'', Namespace = ''mo''\<rparr>, \<lparr>Name = ''Host'', Namespace = ''mo''\<rparr>,
      \<lparr>Name = ''Task'', Namespace = ''do''\<rparr>]" "''Task''"]
  by simp

subsection \<open>Resolving a type reference\<close>

lemma lookUpNamespace_empty: "lookUpNamespace objnsmap [] currentNs = Inr []"
  by (simp add: lookUpNamespace_def)

lemma lookUpNamespace_star:
  "lookUpNamespace objnsmap (CHR ''*'' # rest) currentNs = Inr (qualify objnsmap ''*'' rest currentNs)"
  by (simp add: lookUpNamespace_def and_then_def slice_def slice_from_def)

lemma lookUpNamespace_short:
  assumes "type' \<noteq> []" and "length type' \<le> 2" and "take 1 type' \<noteq> ''*''"
  shows "lookUpNamespace objnsmap type' currentNs = Inl SliceBoundsOutOfRange"
proof -
  from assms(1) obtain c cs where t: "type' = c # cs"
    by (cases type') auto
  with assms(3) have "c \<noteq> CHR ''*''"
    by simp
  with t assms(2) show ?thesis
    by (simp add: lookUpNamespace_def and_then_def slice_def)
qed

lemma lookUpNamespace_long:
  assumes "3 \<le> length type'"
  shows "\<exists>res. lookUpNamespace objnsmap type' currentNs = Inr res"
  using assms
  by (simp add: lookUpNamespace_def and_then_def slice_def slice_from_def)

text \<open>
  Claim C3. lookUpNamespace does not return for every type string: for every
  non-empty string of one or two characters that does not begin with \<^verbatim>\<open>*\<close>, the
  slice \<^verbatim>\<open>type_[0:3]\<close> is out of range and the call panics; for the empty string,
  for a string that begins with \<^verbatim>\<open>*\<close> and for a string of at least three
  characters it returns a result.
\<close>

theorem lookUpNamespace_panics:
  "(type' \<noteq> [] \<and> length type' \<le> 2 \<and> take 1 type' \<noteq> ''*''
      \<longrightarrow> lookUpNamespace objnsmap type' currentNs = Inl SliceBoundsOutOfRange)
   \<and> (type' = [] \<or> take 1 type' = ''*'' \<or> 3 \<le> length type'
      \<longrightarrow> (\<exists>res. lookUpNamespace objnsmap type' currentNs = Inr res))"
proof (intro conjI impI)
  assume "type' \<noteq> [] \<and> length type' \<le> 2 \<and> take 1 type' \<noteq> ''*''"
  then show "lookUpNamespace objnsmap type' currentNs = Inl SliceBoundsOutOfRange"
    by (simp add: lookUpNamespace_short)
next
  assume "type' = [] \<or> take 1 type' = ''*'' \<or> 3 \<le> length type'"
  then consider "type' = []" | "take 1 type' = ''*''" | "3 \<le> length type'"
    by blast
  then show "\<exists>res. lookUpNamespace objnsmap type' currentNs = Inr res"
  proof cases
    case 1
    then show ?thesis
      by (simp add: lookUpNamespace_empty)
  next
    case 2
    then obtain rest where "type' = CHR ''*'' # rest"
      by (cases type') auto
    then show ?thesis
      by (simp add: lookUpNamespace_star)
  next
    case 3
    then show ?thesis
      by (rule lookUpNamespace_long)
  qed
qed

theorem lookUpNamespace_panics_witness:
  "lookUpNamespace Map.empty ''ID'' ''mo'' = Inl SliceBoundsOutOfRange
   \<and> (\<exists>res. lookUpNamespace Map.empty ''Task'' ''mo'' = Inr res)
   \<and> (\<exists>res. lookUpNamespace Map.empty ''*T'' ''mo'' = Inr res)"
  using lookUpNamespace_panics [of "''ID''" Map.empty "''mo''"]
    lookUpNamespace_panics [of "''Task''" Map.empty "''mo''"]
    lookUpNamespace_panics [of "''*T''" Map.empty "''mo''"]
  by simp

text \<open>
  What the code returns for a decorated name: the decoration is split off, the
  bare name looked up, and the decoration put back. An undecorated name needs
  three characters for the slice of line 183, and a name that itself begins
  with a decoration marker would be taken for a decorated one.
\<close>

lemma lookUpNamespace_decorated:
  assumes "d = ''*'' \<or> d = ''[]'' \<or> d = ''[]*'' \<or> (d = [] \<and> 3 \<le> length n)"
    and "n \<noteq> []" and "take 1 n \<noteq> ''*''" and "take 2 n \<noteq> ''[]''"
  shows "lookUpNamespace objnsmap (d @ n) currentNs = Inr (qualify objnsmap d n currentNs)"
proof -
  from assms(2) obtain c cs where n: "n = c # cs"
    by (cases n) auto
  with assms(3) have c: "c \<noteq> CHR ''*''"
    by simp
  from assms(1) consider "d = ''*''" | "d = ''[]''" | "d = ''[]*''" | "d = []" "3 \<le> length n"
    by blast
  then show ?thesis
  proof cases
    case 1
    then show ?thesis
      by (simp add: lookUpNamespace_star)
  next
    case 2
    with n c show ?thesis
      by (simp add: lookUpNamespace_def and_then_def slice_def slice_from_def)
  next
    case 3
    then show ?thesis
      by (simp add: lookUpNamespace_def and_then_def slice_def slice_from_def)
  next
    case 4
    then obtain c1 c2 c3 rest where long: "n = c1 # c2 # c3 # rest"
      by (cases n; cases "tl n"; cases "tl (tl n)") auto
    with assms(3,4) have "c1 \<noteq> CHR ''*''" and "\<not> (c1 = CHR ''['' \<and> c2 = CHR '']'')"
      by auto
    with long 4(1) show ?thesis
      by (auto simp add: lookUpNamespace_def and_then_def slice_def slice_from_def)
  qed
qed

lemma qualify_cases:
  "qualify objnsmap d n currentNs =
     (case objnsmap n of
        None \<Rightarrow> d @ n
      | Some owner \<Rightarrow> if owner = [] \<or> owner = currentNs then d @ n else d @ owner @ ''.'' @ n)"
  by (simp add: qualify_def go_index_def split: option.splits)

text \<open>
  Claim C2. The claim asks that, for every name of the index and every
  decoration (none, \<^verbatim>\<open>*\<close>, \<^verbatim>\<open>[]\<close>, \<^verbatim>\<open>[]*\<close>), lookUpNamespace returns the decorated
  bare name when the current namespace owns the name and the decorated
  qualified name otherwise. With no decoration and a name of two characters the
  code returns nothing at all: for the indexed name \<^verbatim>\<open>ID\<close>, owned by \<^verbatim>\<open>do\<close>, the
  call panics in the owning namespace and in any other.
\<close>

theorem lookUpNamespace_short_name_panics:
  "populate_objnsmap [\<lparr>Name = ''ID'', Namespace = ''do''\<rparr>] ''ID'' = Some ''do''
   \<and> lookUpNamespace (populate_objnsmap [\<lparr>Name = ''ID'', Namespace = ''do''\<rparr>]) ''ID'' ''do''
       = Inl SliceBoundsOutOfRange
   \<and> lookUpNamespace (populate_objnsmap [\<lparr>Name = ''ID'', Namespace = ''do''\<rparr>]) ''ID'' ''mo''
       = Inl SliceBoundsOutOfRange"
  by (simp add: populate_objnsmap_def lookUpNamespace_short)

end
